theory Spec2Isabelle
  imports Main
begin

section \<open>The translation service of the portfolio front-end\<close>

text \<open>
  A shallow embedding of \<^verbatim>\<open>TranslationService\<close>
  (\<^verbatim>\<open>src/app/core/services/translation.service.ts\<close>) and of the declarations of
  \<^verbatim>\<open>translation.model.ts\<close> it uses.

  \<^item> A language code is the JavaScript string it is at run time: the type
    \<^verbatim>\<open>Language\<close> of the source is erased by the compiler, and the casts
    \<^verbatim>\<open>as Language\<close> check nothing.
  \<^item> A translation bundle is a value of a type parameter \<open>'t\<close>: the service stores and
    hands out bundles and never looks inside one.
  \<^item> The three signals, the browser's \<^verbatim>\<open>localStorage\<close> and a chronological trace
    of every effect (storage access, locale read, HTTP request, console output, signal write)
    make up the state, which every operation takes and returns.
  \<^item> An \<^verbatim>\<open>async\<close> method runs until its first \<^verbatim>\<open>await\<close> of an outstanding
    request and is resumed with the request's outcome. The value \<open>promise\<close> is where the
    method stands when control returns to the event loop.
\<close>

subsection \<open>Data model\<close>

type_synonym Language = string

text \<open>\<^verbatim>\<open>export const SUPPORTED_LANGUAGES = ['de', 'en'] as const;\<close>\<close>

definition SUPPORTED_LANGUAGES :: "Language list" where
  "SUPPORTED_LANGUAGES = [''de'', ''en'']"

text \<open>
  What \<^verbatim>\<open>firstValueFrom(this.http.get(...))\<close> rejects with: a transport failure, a
  response whose status is not a success, or a body that is not JSON.
\<close>

datatype fetch_error = NetworkError | HttpStatus nat | MalformedBody

datatype event =
    StorageGetItem string
  | StorageSetItem string string
  | NavigatorLanguageRead
  | HttpGet string
  | ConsoleError Language fetch_error
  | CurrentLanguageSet Language
  | TranslationsSet
  | IsLoadingSet bool

text \<open>
  What the service is given: the platform check, the statically imported bundle
  \<^verbatim>\<open>public/i18n/de.json\<close> (its content is not part of the sources at hand, so it is a
  parameter), the browser's locale, and the outcome of a GET request for each URL.
\<close>

record 't env =
  isBrowser :: bool
  defaultTranslations :: 't
  navigatorLanguage :: string
  httpGet :: "string \<Rightarrow> fetch_error + 't"

record 't service =
  currentLanguage :: Language
  translations_signal :: 't
  isLoading :: bool
  localStorage :: "string \<rightharpoonup> string"
  trace :: "event list"

datatype 't promise =
    Resolved "'t service"
  | AwaitingFetch Language "'t service"

subsection \<open>Operations\<close>

definition emit :: "event \<Rightarrow> 't service \<Rightarrow> 't service" where
  "emit e s = s\<lparr>trace := trace s @ [e]\<rparr>"

text \<open>The template literal \<^verbatim>\<open>`/i18n/${lang}.json`\<close>.\<close>

definition translationsUrl :: "Language \<Rightarrow> string" where
  "translationsUrl lang = ''/i18n/'' @ lang @ ''.json''"

text \<open>
  \<^verbatim>\<open>loadTranslations\<close>, lines 67 to 76, up to the \<^verbatim>\<open>await\<close>: the bundled language
  is set at once; any other language raises the loading flag and sends the request.
\<close>

definition loadTranslations_start :: "'t env \<Rightarrow> Language \<Rightarrow> 't service \<Rightarrow> 't promise" where
  "loadTranslations_start env lang s =
     (if lang = ''de''
      then Resolved (emit TranslationsSet (s\<lparr>translations_signal := defaultTranslations env\<rparr>))
      else AwaitingFetch lang
             (emit (HttpGet (translationsUrl lang))
                (emit (IsLoadingSet True) (s\<lparr>isLoading := True\<rparr>))))"

text \<open>
  \<^verbatim>\<open>loadTranslations\<close>, lines 76 to 84, from the \<^verbatim>\<open>await\<close> on: \<open>Inr\<close> is the
  fetched bundle, \<open>Inl\<close> the error that the \<^verbatim>\<open>catch\<close> block receives; the
  \<^verbatim>\<open>finally\<close> block runs after either.
\<close>

definition loadTranslations_settle ::
  "'t env \<Rightarrow> Language \<Rightarrow> fetch_error + 't \<Rightarrow> 't service \<Rightarrow> 't service" where
  "loadTranslations_settle env lang r s =
     (let s1 = (case r of
                  Inr t \<Rightarrow> emit TranslationsSet (s\<lparr>translations_signal := t\<rparr>)
                | Inl e \<Rightarrow> emit TranslationsSet
                             ((emit (ConsoleError lang e) s)\<lparr>translations_signal := defaultTranslations env\<rparr>))
      in emit (IsLoadingSet False) (s1\<lparr>isLoading := False\<rparr>))"

text \<open>
  Running a suspended call to its end, with no other call in between: the outstanding
  request is answered as the environment says.
\<close>

definition settle :: "'t env \<Rightarrow> 't promise \<Rightarrow> 't service" where
  "settle env p =
     (case p of
        Resolved s \<Rightarrow> s
      | AwaitingFetch lang s \<Rightarrow>
          loadTranslations_settle env lang (httpGet env (translationsUrl lang)) s)"

definition loadTranslations :: "'t env \<Rightarrow> Language \<Rightarrow> 't service \<Rightarrow> 't service" where
  "loadTranslations env lang s = settle env (loadTranslations_start env lang s)"

text \<open>\<^verbatim>\<open>setLanguage\<close>, lines 41 to 53.\<close>

definition setLanguage_start :: "'t env \<Rightarrow> Language \<Rightarrow> 't service \<Rightarrow> 't promise" where
  "setLanguage_start env lang s =
     (if lang = currentLanguage s then Resolved s
      else
        let s1 = emit (CurrentLanguageSet lang) (s\<lparr>currentLanguage := lang\<rparr>);
            s2 = (if isBrowser env
                  then emit (StorageSetItem ''language'' lang)
                         (s1\<lparr>localStorage := (localStorage s1)(''language'' \<mapsto> lang)\<rparr>)
                  else s1)
        in loadTranslations_start env lang s2)"

definition setLanguage :: "'t env \<Rightarrow> Language \<Rightarrow> 't service \<Rightarrow> 't service" where
  "setLanguage env lang s = settle env (setLanguage_start env lang s)"

text \<open>\<^verbatim>\<open>toggleLanguage\<close>, lines 58 to 61.\<close>

definition toggleLanguage_start :: "'t env \<Rightarrow> 't service \<Rightarrow> 't promise" where
  "toggleLanguage_start env s =
     (let newLang = (if currentLanguage s = ''de'' then ''en'' else ''de'')
      in setLanguage_start env newLang s)"

definition toggleLanguage :: "'t env \<Rightarrow> 't service \<Rightarrow> 't service" where
  "toggleLanguage env s = settle env (toggleLanguage_start env s)"

text \<open>
  \<^verbatim>\<open>getInitialLanguage\<close>, lines 94 to 110, with the effects it has. The test
  \<^verbatim>\<open>if (stored)\<close> holds for every string but the empty one; \<^verbatim>\<open>slice(0, 2)\<close> keeps
  the first two characters, or fewer when the string is shorter.
\<close>

definition getInitialLanguage :: "'t env \<Rightarrow> (string \<rightharpoonup> string) \<Rightarrow> Language \<times> event list" where
  "getInitialLanguage env storage =
     (if \<not> isBrowser env then (''de'', [])
      else
        (case storage ''language'' of
           Some (c # cs) \<Rightarrow> (c # cs, [StorageGetItem ''language''])
         | _ \<Rightarrow>
            (let browserLang = take 2 (navigatorLanguage env);
                 effects = [StorageGetItem ''language'', NavigatorLanguageRead]
             in if browserLang \<in> set SUPPORTED_LANGUAGES then (browserLang, effects)
                else (''de'', effects))))"

text \<open>
  The field initialisers of lines 24 to 26 and the constructor of lines 33 to 35, which calls
  \<^verbatim>\<open>loadTranslations\<close> without awaiting it. \<open>storage\<close> is the content of
  \<^verbatim>\<open>localStorage\<close> when the service is created.
\<close>

definition constructor_start :: "'t env \<Rightarrow> (string \<rightharpoonup> string) \<Rightarrow> 't promise" where
  "constructor_start env storage =
     (let (lang, effects) = getInitialLanguage env storage;
          s0 = \<lparr>currentLanguage = lang, translations_signal = defaultTranslations env,
                isLoading = False, localStorage = storage, trace = effects\<rparr>
      in loadTranslations_start env lang s0)"

definition constructor :: "'t env \<Rightarrow> (string \<rightharpoonup> string) \<Rightarrow> 't service" where
  "constructor env storage = settle env (constructor_start env storage)"

subsection \<open>Observations on the trace\<close>

text \<open>The URLs requested, the values written to the loading flag and the accesses to
  \<^verbatim>\<open>localStorage\<close>, each in the order of the trace.\<close>

fun fetches :: "event list \<Rightarrow> string list" where
  "fetches [] = []"
| "fetches (HttpGet url # es) = url # fetches es"
| "fetches (_ # es) = fetches es"

fun loadingWrites :: "event list \<Rightarrow> bool list" where
  "loadingWrites [] = []"
| "loadingWrites (IsLoadingSet b # es) = b # loadingWrites es"
| "loadingWrites (_ # es) = loadingWrites es"

fun storageAccesses :: "event list \<Rightarrow> event list" where
  "storageAccesses [] = []"
| "storageAccesses (StorageGetItem k # es) = StorageGetItem k # storageAccesses es"
| "storageAccesses (StorageSetItem k v # es) = StorageSetItem k v # storageAccesses es"
| "storageAccesses (_ # es) = storageAccesses es"

subsection \<open>Concrete environments\<close>

text \<open>
  Bundles as lists of key and text, a browser whose server answers the request for the
  English bundle, the same browser with the network down, and a server-side rendering
  context. \<open>ex_after_failure\<close> is the service after the scenario of the test
  \<^verbatim>\<open>should fallback to default translations on HTTP error\<close>: created with nothing
  stored and the locale \<^verbatim>\<open>de-DE\<close>, then \<^verbatim>\<open>setLanguage('en')\<close> with the
  request failing.
\<close>

type_synonym ex_bundle = "(string \<times> string) list"

definition ex_de :: ex_bundle where
  "ex_de = [(''placeholder'', ''Platzhalter'')]"

definition ex_en :: ex_bundle where
  "ex_en = [(''placeholder'', ''Placeholder'')]"

definition ex_browser_up :: "ex_bundle env" where
  "ex_browser_up =
     \<lparr>isBrowser = True, defaultTranslations = ex_de, navigatorLanguage = ''de-DE'',
      httpGet = (\<lambda>url. if url = ''/i18n/en.json'' then Inr ex_en else Inl (HttpStatus 404))\<rparr>"

definition ex_browser_down :: "ex_bundle env" where
  "ex_browser_down =
     \<lparr>isBrowser = True, defaultTranslations = ex_de, navigatorLanguage = ''de-DE'',
      httpGet = (\<lambda>url. Inl NetworkError)\<rparr>"

definition ex_server :: "ex_bundle env" where
  "ex_server =
     \<lparr>isBrowser = False, defaultTranslations = ex_de, navigatorLanguage = ''en-US'',
      httpGet = (\<lambda>url. if url = ''/i18n/en.json'' then Inr ex_en else Inl (HttpStatus 404))\<rparr>"

definition ex_after_failure :: "ex_bundle service" where
  "ex_after_failure = setLanguage ex_browser_down ''en'' (constructor ex_browser_down Map.empty)"

section \<open>Properties\<close>

subsection \<open>Auxiliary facts\<close>

lemmas service_defs =
  emit_def translationsUrl_def loadTranslations_start_def loadTranslations_settle_def
  settle_def loadTranslations_def setLanguage_start_def setLanguage_def
  toggleLanguage_start_def toggleLanguage_def

lemmas init_defs = getInitialLanguage_def constructor_start_def constructor_def

lemma fetches_append: "fetches (xs @ ys) = fetches xs @ fetches ys"
  by (induction xs rule: fetches.induct) simp_all

lemma loadingWrites_append: "loadingWrites (xs @ ys) = loadingWrites xs @ loadingWrites ys"
  by (induction xs rule: loadingWrites.induct) simp_all

lemma storageAccesses_append:
  "storageAccesses (xs @ ys) = storageAccesses xs @ storageAccesses ys"
  by (induction xs rule: storageAccesses.induct) simp_all

text \<open>The two halves of \<^verbatim>\<open>loadTranslations\<close> never write the current language.\<close>

lemma currentLanguage_settle:
  "currentLanguage (loadTranslations_settle env lang r s) = currentLanguage s"
  by (cases r) (simp_all add: loadTranslations_settle_def emit_def)

lemma currentLanguage_loadTranslations:
  "currentLanguage (loadTranslations env lang s) = currentLanguage s"
  by (simp add: loadTranslations_def loadTranslations_start_def settle_def
      currentLanguage_settle emit_def)

text \<open>What a call that changes the language does: the language with the bundled
  translations resolves at once, any other is suspended at its request.\<close>

lemma setLanguage_start_de:
  "currentLanguage s \<noteq> ''de'' \<Longrightarrow>
   setLanguage_start env ''de'' s =
     Resolved (s\<lparr>currentLanguage := ''de'',
        translations_signal := defaultTranslations env,
        localStorage := (if isBrowser env then (localStorage s)(''language'' \<mapsto> ''de'')
                         else localStorage s),
        trace := trace s @ [CurrentLanguageSet ''de'']
          @ (if isBrowser env then [StorageSetItem ''language'' ''de''] else [])
          @ [TranslationsSet]\<rparr>)"
  by (simp add: setLanguage_start_def loadTranslations_start_def emit_def Let_def)

lemma setLanguage_start_other:
  "L \<noteq> currentLanguage s \<Longrightarrow> L \<noteq> ''de'' \<Longrightarrow>
   setLanguage_start env L s =
     AwaitingFetch L (s\<lparr>currentLanguage := L,
        isLoading := True,
        localStorage := (if isBrowser env then (localStorage s)(''language'' \<mapsto> L)
                         else localStorage s),
        trace := trace s @ [CurrentLanguageSet L]
          @ (if isBrowser env then [StorageSetItem ''language'' L] else [])
          @ [IsLoadingSet True, HttpGet (translationsUrl L)]\<rparr>)"
  by (simp add: setLanguage_start_def loadTranslations_start_def emit_def Let_def)

text \<open>A stored preference is returned whenever it is a non-empty string.\<close>

lemma getInitialLanguage_stored:
  "isBrowser env \<Longrightarrow> storage ''language'' = Some v \<Longrightarrow> v \<noteq> [] \<Longrightarrow>
   getInitialLanguage env storage = (v, [StorageGetItem ''language''])"
  by (cases v) (simp_all add: getInitialLanguage_def)

lemma ex_browser_up_sel:
  "isBrowser ex_browser_up"
  "defaultTranslations ex_browser_up = ex_de"
  "httpGet ex_browser_up ''/i18n/en.json'' = Inr ex_en"
  by (simp_all add: ex_browser_up_def)

lemma ex_browser_down_sel:
  "isBrowser ex_browser_down"
  "defaultTranslations ex_browser_down = ex_de"
  "httpGet ex_browser_down url = Inl NetworkError"
  by (simp_all add: ex_browser_down_def)

lemma ex_constructor_up:
  "constructor ex_browser_up Map.empty =
     \<lparr>currentLanguage = ''de'', translations_signal = ex_de, isLoading = False,
      localStorage = Map.empty,
      trace = [StorageGetItem ''language'', NavigatorLanguageRead, TranslationsSet]\<rparr>"
  by (simp add: init_defs service_defs ex_browser_up_def SUPPORTED_LANGUAGES_def)

lemma ex_after_failure_eq:
  "ex_after_failure =
     \<lparr>currentLanguage = ''en'', translations_signal = ex_de, isLoading = False,
      localStorage = [''language'' \<mapsto> ''en''],
      trace = [StorageGetItem ''language'', NavigatorLanguageRead, TranslationsSet,
               CurrentLanguageSet ''en'', StorageSetItem ''language'' ''en'',
               IsLoadingSet True, HttpGet ''/i18n/en.json'',
               ConsoleError ''en'' NetworkError, TranslationsSet, IsLoadingSet False]\<rparr>"
  by (simp add: ex_after_failure_def init_defs service_defs ex_browser_down_def
      SUPPORTED_LANGUAGES_def)

subsection \<open>Initialisation\<close>

text \<open>
  Claim C1. A stored language preference is selected only if it is a member of the supported
  set; a stored value outside the set does not become the current language.

  \<^verbatim>\<open>getInitialLanguage\<close> tests the stored value for truthiness only (line 100), where
  the browser locale two lines further down is tested with
  \<^verbatim>\<open>SUPPORTED_LANGUAGES.includes\<close>. In a browser whose storage holds
  \<^verbatim>\<open>language = fr\<close> the function returns \<^verbatim>\<open>fr\<close>, which is not supported; it
  becomes the current language, and the constructor requests \<^verbatim>\<open>/i18n/fr.json\<close>.
\<close>

theorem getInitialLanguage_stored_unsupported:
  "getInitialLanguage ex_browser_up [''language'' \<mapsto> ''fr'']
     = (''fr'', [StorageGetItem ''language''])
   \<and> ''fr'' \<notin> set SUPPORTED_LANGUAGES
   \<and> currentLanguage (constructor ex_browser_up [''language'' \<mapsto> ''fr'']) = ''fr''
   \<and> fetches (trace (constructor ex_browser_up [''language'' \<mapsto> ''fr''])) = [''/i18n/fr.json'']"
proof -
  have stored: "getInitialLanguage ex_browser_up [''language'' \<mapsto> ''fr'']
     = (''fr'', [StorageGetItem ''language''])"
    by (rule getInitialLanguage_stored) (simp_all add: ex_browser_up_sel)
  have "''fr'' \<notin> set SUPPORTED_LANGUAGES"
    by (simp add: SUPPORTED_LANGUAGES_def)
  moreover have "currentLanguage (constructor ex_browser_up [''language'' \<mapsto> ''fr'']) = ''fr''"
    by (simp add: constructor_def constructor_start_def stored service_defs split: sum.split)
  moreover have
    "fetches (trace (constructor ex_browser_up [''language'' \<mapsto> ''fr''])) = [''/i18n/fr.json'']"
    by (simp add: constructor_def constructor_start_def stored service_defs split: sum.split)
  ultimately show ?thesis using stored by simp
qed

text \<open>
  Claim C7. In a server context initialisation reads neither the storage nor the locale and
  selects \<^verbatim>\<open>de\<close>: whatever the storage holds and whatever locale the environment
  has, \<^verbatim>\<open>getInitialLanguage\<close> returns \<^verbatim>\<open>de\<close> with no effect, and the only effect
  of the constructor is setting the bundle.
\<close>

theorem getInitialLanguage_server:
  assumes "\<not> isBrowser env"
  shows "getInitialLanguage env storage = (''de'', [])
     \<and> getInitialLanguage (env\<lparr>navigatorLanguage := locale\<rparr>) storage = (''de'', [])
     \<and> constructor_start env storage = Resolved (constructor env storage)
     \<and> currentLanguage (constructor env storage) = ''de''
     \<and> trace (constructor env storage) = [TranslationsSet]
     \<and> storageAccesses (trace (constructor env storage)) = []"
proof -
  from assms have initial: "getInitialLanguage env storage = (''de'', [])"
    by (simp add: getInitialLanguage_def)
  from assms have "getInitialLanguage (env\<lparr>navigatorLanguage := locale\<rparr>) storage = (''de'', [])"
    by (simp add: getInitialLanguage_def)
  moreover from initial have "constructor_start env storage = Resolved (constructor env storage)"
    and "currentLanguage (constructor env storage) = ''de''"
    and "trace (constructor env storage) = [TranslationsSet]"
    by (simp_all add: constructor_def constructor_start_def loadTranslations_start_def
        settle_def emit_def)
  ultimately show ?thesis using initial by simp
qed

theorem getInitialLanguage_server_witness:
  "\<not> isBrowser ex_server \<and> navigatorLanguage ex_server = ''en-US''
   \<and> getInitialLanguage ex_server [''language'' \<mapsto> ''en''] = (''de'', [])
   \<and> currentLanguage (constructor ex_server [''language'' \<mapsto> ''en'']) = ''de''
   \<and> trace (constructor ex_server [''language'' \<mapsto> ''en'']) = [TranslationsSet]"
  using getInitialLanguage_server [of ex_server "[''language'' \<mapsto> ''en'']"]
  by (simp add: ex_server_def)

text \<open>
  Claim C8. In a browser with nothing stored under \<^verbatim>\<open>language\<close> and a locale whose
  first two characters are not a supported language, the constructor runs to its end without
  suspending, the current language is \<^verbatim>\<open>de\<close>, the bundle is the default bundle, and
  no request is sent.
\<close>

theorem constructor_unsupported_locale:
  assumes "isBrowser env" and "storage ''language'' = None"
    and "take 2 (navigatorLanguage env) \<notin> set SUPPORTED_LANGUAGES"
  shows "constructor_start env storage = Resolved (constructor env storage)
     \<and> currentLanguage (constructor env storage) = ''de''
     \<and> translations_signal (constructor env storage) = defaultTranslations env
     \<and> isLoading (constructor env storage) = False
     \<and> fetches (trace (constructor env storage)) = []"
proof -
  from assms have "getInitialLanguage env storage
      = (''de'', [StorageGetItem ''language'', NavigatorLanguageRead])"
    by (simp add: getInitialLanguage_def)
  then show ?thesis
    by (simp add: constructor_def constructor_start_def loadTranslations_start_def
        settle_def emit_def)
qed

theorem constructor_unsupported_locale_witness:
  "isBrowser (ex_browser_up\<lparr>navigatorLanguage := ''fr-FR''\<rparr>)
   \<and> take 2 (navigatorLanguage (ex_browser_up\<lparr>navigatorLanguage := ''fr-FR''\<rparr>)) = ''fr''
   \<and> ''fr'' \<notin> set SUPPORTED_LANGUAGES
   \<and> currentLanguage (constructor (ex_browser_up\<lparr>navigatorLanguage := ''fr-FR''\<rparr>) Map.empty) = ''de''
   \<and> translations_signal (constructor (ex_browser_up\<lparr>navigatorLanguage := ''fr-FR''\<rparr>) Map.empty) = ex_de
   \<and> fetches (trace (constructor (ex_browser_up\<lparr>navigatorLanguage := ''fr-FR''\<rparr>) Map.empty)) = []"
  using constructor_unsupported_locale [of "ex_browser_up\<lparr>navigatorLanguage := ''fr-FR''\<rparr>" Map.empty]
  by (simp add: ex_browser_up_def SUPPORTED_LANGUAGES_def)

subsection \<open>Changing the language\<close>

text \<open>
  Claim C2. For every supported language \<open>L\<close> and every starting state, the current language
  is \<open>L\<close> once \<^verbatim>\<open>setLanguage(L)\<close> has run to its end (with no other call in
  between), whatever the answer to its request.
\<close>

theorem setLanguage_currentLanguage:
  assumes "L \<in> set SUPPORTED_LANGUAGES"
  shows "currentLanguage (setLanguage env L s) = L"
proof (cases "L = currentLanguage s")
  case True
  then show ?thesis
    by (simp add: setLanguage_def setLanguage_start_def settle_def)
next
  case False
  show ?thesis
  proof (cases "L = ''de''")
    case True
    with False show ?thesis
      by (simp add: setLanguage_def setLanguage_start_de settle_def)
  next
    case other: False
    with False show ?thesis
      by (simp add: setLanguage_def setLanguage_start_other settle_def currentLanguage_settle)
  qed
qed

theorem setLanguage_currentLanguage_witness:
  "''en'' \<in> set SUPPORTED_LANGUAGES
   \<and> currentLanguage (setLanguage ex_browser_up ''en'' (constructor ex_browser_up Map.empty)) = ''en''"
  using setLanguage_currentLanguage [of "''en''" ex_browser_up "constructor ex_browser_up Map.empty"]
  by (simp add: SUPPORTED_LANGUAGES_def)

text \<open>
  Claim C3. \<^verbatim>\<open>setLanguage\<close> with the current language resolves at once and returns the
  state it was given: the signals, the storage and the trace are the same, so nothing was
  written to the storage and nothing was requested.
\<close>

theorem setLanguage_same_language_noop:
  "setLanguage_start env (currentLanguage s) s = Resolved s
   \<and> setLanguage env (currentLanguage s) s = s"
  by (simp add: setLanguage_def setLanguage_start_def settle_def)

theorem setLanguage_same_language_noop_witness:
  "setLanguage ex_browser_down ''en'' ex_after_failure = ex_after_failure"
  using setLanguage_same_language_noop [of ex_browser_down ex_after_failure]
  by (simp add: ex_after_failure_eq)

text \<open>
  Claim C4. Loading \<^verbatim>\<open>de\<close> resolves without suspending, sets the bundle to the default
  bundle, leaves the loading flag as it is and adds to the trace the write of the bundle
  only. Selecting \<^verbatim>\<open>de\<close> with \<^verbatim>\<open>setLanguage\<close> therefore resolves at once too,
  sends no request and writes the loading flag not once: a flag that is false stays false.
\<close>

theorem loadTranslations_fallback_sync:
  "loadTranslations_start env ''de'' s = Resolved (loadTranslations env ''de'' s)
   \<and> translations_signal (loadTranslations env ''de'' s) = defaultTranslations env
   \<and> isLoading (loadTranslations env ''de'' s) = isLoading s
   \<and> trace (loadTranslations env ''de'' s) = trace s @ [TranslationsSet]
   \<and> setLanguage_start env ''de'' s = Resolved (setLanguage env ''de'' s)
   \<and> isLoading (setLanguage env ''de'' s) = isLoading s
   \<and> fetches (trace (setLanguage env ''de'' s)) = fetches (trace s)
   \<and> loadingWrites (trace (setLanguage env ''de'' s)) = loadingWrites (trace s)"
proof -
  have load: "loadTranslations_start env ''de'' s = Resolved (loadTranslations env ''de'' s)"
    "translations_signal (loadTranslations env ''de'' s) = defaultTranslations env"
    "isLoading (loadTranslations env ''de'' s) = isLoading s"
    "trace (loadTranslations env ''de'' s) = trace s @ [TranslationsSet]"
    by (simp_all add: loadTranslations_def loadTranslations_start_def settle_def emit_def)
  have select: "setLanguage_start env ''de'' s = Resolved (setLanguage env ''de'' s)
   \<and> isLoading (setLanguage env ''de'' s) = isLoading s
   \<and> fetches (trace (setLanguage env ''de'' s)) = fetches (trace s)
   \<and> loadingWrites (trace (setLanguage env ''de'' s)) = loadingWrites (trace s)"
  proof (cases "currentLanguage s = ''de''")
    case True
    then show ?thesis
      by (simp add: setLanguage_def setLanguage_start_def settle_def)
  next
    case False
    then show ?thesis
      by (simp add: setLanguage_def setLanguage_start_de settle_def fetches_append
          loadingWrites_append)
  qed
  from load select show ?thesis by simp
qed

theorem loadTranslations_fallback_sync_witness:
  "translations_signal (setLanguage ex_browser_up ''de'' ex_after_failure) = ex_de
   \<and> isLoading (setLanguage ex_browser_up ''de'' ex_after_failure) = False
   \<and> fetches (trace (setLanguage ex_browser_up ''de'' ex_after_failure)) = [''/i18n/en.json'']
   \<and> loadingWrites (trace (setLanguage ex_browser_up ''de'' ex_after_failure)) = [True, False]"
  using loadTranslations_fallback_sync [of ex_browser_up ex_after_failure]
  by (simp add: ex_after_failure_eq service_defs ex_browser_up_def)

text \<open>
  Claim C5. Let \<open>L\<close> be a supported language other than \<^verbatim>\<open>de\<close> and not the current
  one, so that \<^verbatim>\<open>setLanguage(L)\<close> sends a request, and let that request fail with an
  error \<open>e\<close>. Then the call is suspended at the request and resumed with the error, which
  is logged and goes no further: the call ends in a state where the bundle is the default
  bundle, the current language is \<open>L\<close> and the loading flag is false.
\<close>

theorem setLanguage_fetch_failure:
  assumes "L \<in> set SUPPORTED_LANGUAGES" and "L \<noteq> ''de''" and "L \<noteq> currentLanguage s"
    and "httpGet env (translationsUrl L) = Inl e"
  shows "(\<exists>s'. setLanguage_start env L s = AwaitingFetch L s'
            \<and> setLanguage env L s = loadTranslations_settle env L (Inl e) s')
   \<and> translations_signal (setLanguage env L s) = defaultTranslations env
   \<and> currentLanguage (setLanguage env L s) = L
   \<and> isLoading (setLanguage env L s) = False
   \<and> fetches (trace (setLanguage env L s)) = fetches (trace s) @ [translationsUrl L]
   \<and> ConsoleError L e \<in> set (trace (setLanguage env L s))"
proof -
  from assms(2,3) obtain s' where
    start: "setLanguage_start env L s = AwaitingFetch L s'"
    and s': "currentLanguage s' = L"
      "fetches (trace s') = fetches (trace s) @ [translationsUrl L]"
    by (simp add: setLanguage_start_other fetches_append)
  from start assms(4) have run: "setLanguage env L s = loadTranslations_settle env L (Inl e) s'"
    by (simp add: setLanguage_def settle_def)
  have "translations_signal (loadTranslations_settle env L (Inl e) s') = defaultTranslations env"
    and "isLoading (loadTranslations_settle env L (Inl e) s') = False"
    and "ConsoleError L e \<in> set (trace (loadTranslations_settle env L (Inl e) s'))"
    and "fetches (trace (loadTranslations_settle env L (Inl e) s')) = fetches (trace s')"
    by (simp_all add: loadTranslations_settle_def emit_def fetches_append)
  with start run s' show ?thesis
    by (simp add: currentLanguage_settle)
qed

theorem setLanguage_fetch_failure_witness:
  "''en'' \<in> set SUPPORTED_LANGUAGES \<and> ''en'' \<noteq> ''de''
   \<and> ''en'' \<noteq> currentLanguage (constructor ex_browser_down Map.empty)
   \<and> httpGet ex_browser_down (translationsUrl ''en'') = Inl NetworkError
   \<and> translations_signal (setLanguage ex_browser_down ''en'' (constructor ex_browser_down Map.empty)) = ex_de
   \<and> currentLanguage (setLanguage ex_browser_down ''en'' (constructor ex_browser_down Map.empty)) = ''en''
   \<and> isLoading (setLanguage ex_browser_down ''en'' (constructor ex_browser_down Map.empty)) = False"
  using setLanguage_fetch_failure [of "''en''" "constructor ex_browser_down Map.empty" ex_browser_down NetworkError]
  by (simp add: SUPPORTED_LANGUAGES_def init_defs service_defs ex_browser_down_def)

text \<open>
  Claim C6. A call of \<^verbatim>\<open>setLanguage\<close> that sends a request (the language is neither
  the current one nor \<^verbatim>\<open>de\<close>) is suspended in a state where the current language is
  already the new one and, in a browser, the storage already holds it; in the trace the
  write of the current language and the storage write come before the request.
\<close>

theorem setLanguage_update_before_fetch:
  assumes "L \<noteq> currentLanguage s" and "L \<noteq> ''de''"
  shows "\<exists>s'. setLanguage_start env L s = AwaitingFetch L s'
     \<and> currentLanguage s' = L
     \<and> localStorage s' =
         (if isBrowser env then (localStorage s)(''language'' \<mapsto> L) else localStorage s)
     \<and> trace s' = trace s @ [CurrentLanguageSet L]
         @ (if isBrowser env then [StorageSetItem ''language'' L] else [])
         @ [IsLoadingSet True, HttpGet (translationsUrl L)]"
  using assms by (simp add: setLanguage_start_other)

theorem setLanguage_update_before_fetch_witness:
  "\<exists>s'. setLanguage_start ex_browser_up ''en'' (constructor ex_browser_up Map.empty) = AwaitingFetch ''en'' s'
     \<and> currentLanguage s' = ''en''
     \<and> localStorage s' = [''language'' \<mapsto> ''en'']
     \<and> trace s' = [StorageGetItem ''language'', NavigatorLanguageRead, TranslationsSet,
         CurrentLanguageSet ''en'', StorageSetItem ''language'' ''en'',
         IsLoadingSet True, HttpGet ''/i18n/en.json'']"
  using setLanguage_update_before_fetch [of "''en''" "constructor ex_browser_up Map.empty" ex_browser_up]
  by (simp add: ex_constructor_up ex_browser_up_sel translationsUrl_def)

subsection \<open>Toggling\<close>

text \<open>
  Claim C10. \<^verbatim>\<open>toggleLanguage\<close> is \<^verbatim>\<open>setLanguage\<close> of \<^verbatim>\<open>en\<close> when the current
  language is \<^verbatim>\<open>de\<close> and of \<^verbatim>\<open>de\<close> in every other case; once it has run to its
  end the current language is that target, a supported language, whatever the current
  language was before.
\<close>

theorem toggleLanguage_target:
  "toggleLanguage_start env s =
     setLanguage_start env (if currentLanguage s = ''de'' then ''en'' else ''de'') s
   \<and> currentLanguage (toggleLanguage env s) = (if currentLanguage s = ''de'' then ''en'' else ''de'')
   \<and> currentLanguage (toggleLanguage env s) \<in> set SUPPORTED_LANGUAGES"
proof (cases "currentLanguage s = ''de''")
  case True
  then show ?thesis
    by (simp add: toggleLanguage_def toggleLanguage_start_def setLanguage_start_other
        settle_def currentLanguage_settle SUPPORTED_LANGUAGES_def)
next
  case False
  then show ?thesis
    by (simp add: toggleLanguage_def toggleLanguage_start_def setLanguage_start_de
        settle_def SUPPORTED_LANGUAGES_def)
qed

theorem toggleLanguage_target_witness:
  "currentLanguage (constructor ex_browser_up [''language'' \<mapsto> ''fr'']) = ''fr''
   \<and> currentLanguage (toggleLanguage ex_browser_up (constructor ex_browser_up [''language'' \<mapsto> ''fr''])) = ''de''"
  using toggleLanguage_target [of ex_browser_up "constructor ex_browser_up [''language'' \<mapsto> ''fr'']"]
  by (simp add: init_defs service_defs ex_browser_up_def)

text \<open>
  Claim C9. For every starting state with a supported current language, two calls of
  \<^verbatim>\<open>toggleLanguage\<close>, each run to its end, give back the original language and the
  original bundle.

  The language comes back, the bundle need not. After a failed request for \<^verbatim>\<open>en\<close> the
  service holds the language \<^verbatim>\<open>en\<close> with the default bundle; when the server answers
  again, toggling to \<^verbatim>\<open>de\<close> and back requests the English bundle anew and stores it.
\<close>

theorem toggleLanguage_twice_counterexample:
  "currentLanguage ex_after_failure \<in> set SUPPORTED_LANGUAGES
   \<and> currentLanguage (toggleLanguage ex_browser_up (toggleLanguage ex_browser_up ex_after_failure))
       = currentLanguage ex_after_failure
   \<and> translations_signal ex_after_failure = ex_de
   \<and> translations_signal (toggleLanguage ex_browser_up (toggleLanguage ex_browser_up ex_after_failure))
       = ex_en
   \<and> translations_signal (toggleLanguage ex_browser_up (toggleLanguage ex_browser_up ex_after_failure))
       \<noteq> translations_signal ex_after_failure"
  by (simp add: ex_after_failure_eq service_defs Let_def ex_browser_up_sel ex_de_def ex_en_def
      SUPPORTED_LANGUAGES_def)

text \<open>
  Claim C9, amended. If the current language is supported and the bundle of the starting
  state is the one that loading the current language yields (loading it again would leave
  the bundle as it is), then two calls of \<^verbatim>\<open>toggleLanguage\<close>, each run to its end under
  the same answers to requests, give back the original language and the original bundle.
\<close>

theorem toggleLanguage_twice:
  assumes "currentLanguage s \<in> set SUPPORTED_LANGUAGES"
    and "translations_signal (loadTranslations env (currentLanguage s) s) = translations_signal s"
  shows "currentLanguage (toggleLanguage env (toggleLanguage env s)) = currentLanguage s
     \<and> translations_signal (toggleLanguage env (toggleLanguage env s)) = translations_signal s"
proof -
  from assms(1) consider (de) "currentLanguage s = ''de''" | (en) "currentLanguage s = ''en''"
    by (auto simp add: SUPPORTED_LANGUAGES_def)
  then show ?thesis
  proof cases
    case de
    with assms(2) have orig: "translations_signal s = defaultTranslations env"
      by (simp add: loadTranslations_def loadTranslations_start_def settle_def emit_def)
    define s1 where "s1 = toggleLanguage env s"
    from de have "currentLanguage s1 = ''en''"
      by (simp add: s1_def toggleLanguage_def toggleLanguage_start_def setLanguage_start_other
          settle_def currentLanguage_settle)
    then have "currentLanguage (toggleLanguage env s1) = ''de''"
      and "translations_signal (toggleLanguage env s1) = defaultTranslations env"
      by (simp_all add: toggleLanguage_def toggleLanguage_start_def setLanguage_start_de
          settle_def)
    with de orig show ?thesis by (simp add: s1_def)
  next
    case en
    define s1 where "s1 = toggleLanguage env s"
    from en have s1: "currentLanguage s1 = ''de''"
      by (simp add: s1_def toggleLanguage_def toggleLanguage_start_def setLanguage_start_de
          settle_def)
    have "translations_signal (toggleLanguage env s1)
        = translations_signal (loadTranslations env ''en'' s)"
      using s1
      by (cases "httpGet env (translationsUrl ''en'')")
        (simp_all add: toggleLanguage_def toggleLanguage_start_def setLanguage_start_other
          settle_def loadTranslations_def loadTranslations_start_def
          loadTranslations_settle_def emit_def)
    moreover from s1 have "currentLanguage (toggleLanguage env s1) = ''en''"
      by (simp add: toggleLanguage_def toggleLanguage_start_def setLanguage_start_other
          settle_def currentLanguage_settle)
    ultimately show ?thesis using en assms(2) by (simp add: s1_def)
  qed
qed

theorem toggleLanguage_twice_witness:
  "currentLanguage ex_after_failure \<in> set SUPPORTED_LANGUAGES
   \<and> translations_signal (loadTranslations ex_browser_down (currentLanguage ex_after_failure) ex_after_failure)
       = translations_signal ex_after_failure
   \<and> currentLanguage (toggleLanguage ex_browser_down (toggleLanguage ex_browser_down ex_after_failure)) = ''en''
   \<and> translations_signal (toggleLanguage ex_browser_down (toggleLanguage ex_browser_down ex_after_failure)) = ex_de"
  using toggleLanguage_twice [of ex_after_failure ex_browser_down]
  by (simp add: ex_after_failure_eq SUPPORTED_LANGUAGES_def service_defs Let_def
      ex_browser_down_sel)

end
